theory Spec2Isabelle
  imports Main "HOL-Library.Sublist"
begin

section \<open>The Gitea reconciliation task (src/tasks/gitea/gitea.ts)\<close>

text \<open>
  The task talks to two outside parties: the Gitea REST backend (through the two client
  objects \<open>orgApi\<close> and \<open>repoApi\<close>) and the cluster's service discovery (\<open>k8sApi\<close>).
  Both are parameters of the model. Every interaction is appended to a trace, and an
  outside party may answer depending on everything that happened before, so it is a
  function of the trace so far.
\<close>

subsection \<open>Data of the client library\<close>

text \<open>
  Optional properties of the client's classes are \<open>option\<close> fields, \<open>None\<close> standing for
  \<open>undefined\<close>. Only the properties the task reads or writes are kept.
\<close>

record team =
  team_id :: "int option"
  team_name :: "string option"

record repository =
  repo_name :: "string option"

text \<open>
  Modelled from the spec: the enumeration \<open>CreateTeamOption.PermissionEnum\<close> of the client
  library is declared outside the task; the spec names its three tiers and their order
  Read < Write < Admin, which \<open>permission_tier\<close> records.
\<close>

datatype permission = Read | Write | Admin

fun permission_tier :: "permission \<Rightarrow> nat" where
  "permission_tier Read = 0"
| "permission_tier Write = 1"
| "permission_tier Admin = 2"

record createTeamOption =
  canCreateOrgRepo :: "bool option"
  description :: "string option"
  includesAllRepositories :: "bool option"
  name :: string
  permission :: "permission option"
  units :: "string list option"

record createOrgOption =
  org_username :: string
  repoAdminChangeTeamAccess :: "bool option"

text \<open>\<open>CreateRepoOption | EditRepoOption\<close>: the name is optional in the second.\<close>

record repoOption =
  autoInit :: "bool option"
  repoOption_name :: "string option"
  repoOption_private :: "bool option"

text \<open>
  Modelled from the spec: \<open>CreateHookOption.TypeEnum\<close> is declared in the client library;
  \<open>Gitea\<close> is the platform-native webhook type, the others are the third-party ones.
\<close>

datatype hookType = Dingtalk | Discord | Gitea | Gogs | Msteams | Slack | Telegram | Feishu

record hookConfig =
  url :: "string option"
  http_method :: "string option"
  content_type :: "string option"

text \<open>A hook as the listing returns it; the task reads nothing but \<open>config.url\<close>.\<close>

record hook =
  config :: "hookConfig option"

record createHookOption =
  hook_type :: hookType
  hook_config :: hookConfig
  events :: "string list"

subsection \<open>Backend calls, answers and the trace\<close>

datatype call =
    OrgCreate createOrgOption
  | OrgListTeams string
  | OrgEditTeam "int option" createTeamOption
  | OrgCreateTeam string createTeamOption
  | OrgListRepos string
  | CreateOrgRepo string repoOption
  | RepoEdit string "string option" repoOption
  | RepoAddTeam string "string option" string
  | RepoListHooks string string
  | RepoCreateHook string string createHookOption

text \<open>
  The body of an answer is untyped on the task's side (\<open>doApiCall\<close> returns \<open>any\<close>).
\<close>

datatype body = NoContent | Teams "team list" | Repos "repository list" | Hooks "hook list"

datatype response = Success body | Failure nat string

text \<open>
  An event is either a call made through \<open>doApiCall\<close> (its action text, the call, the
  tolerated status) or a service lookup (service name, namespace).
\<close>

datatype event =
    ApiCall string call "nat option"
  | ReadNamespacedService string string

type_synonym backend = "event list \<Rightarrow> call \<Rightarrow> response"

text \<open>The module-level array \<open>errors\<close> and the trace make up the state.\<close>

record state =
  errors :: "string list"
  trace :: "event list"

text \<open>The constants imported from \<open>../common\<close>.\<close>

record common =
  orgName :: string
  otomiValuesRepoName :: string
  teamNameViewer :: string

subsection \<open>The tolerant caller\<close>

text \<open>
  Modelled from the spec: \<open>doApiCall\<close> lives in \<open>../../utils\<close>. It runs the operation
  once. On success it returns the result. On a failure whose status is the tolerated one
  it records nothing and returns \<open>undefined\<close>. On any other failure (also when no status
  is tolerated) it appends \<open><description>: <failure detail>\<close> to the error log and returns
  \<open>undefined\<close>. It never throws.
\<close>

definition doApiCall ::
  "backend \<Rightarrow> string \<Rightarrow> call \<Rightarrow> nat option \<Rightarrow> state \<Rightarrow> body option \<times> state" where
  "doApiCall api action fn tolerated s =
     (let s' = s\<lparr>trace := trace s @ [ApiCall action fn tolerated]\<rparr> in
      case api (trace s) fn of
        Success res \<Rightarrow> (Some res, s')
      | Failure status detail \<Rightarrow>
          if tolerated = Some status then (None, s')
          else (None, s'\<lparr>errors := errors s' @ [action @ '': '' @ detail]\<rparr>))"

subsection \<open>Team templates\<close>

text \<open>\<open>new CreateTeamOption()\<close> has no property set.\<close>

definition readOnlyTeam :: "common \<Rightarrow> createTeamOption" where
  "readOnlyTeam cm =
     \<lparr>canCreateOrgRepo = Some False,
      description = None,
      includesAllRepositories = Some True,
      name = teamNameViewer cm,
      permission = Some Read,
      units = Some [''repo.code'']\<rparr>"

definition editorTeam :: "common \<Rightarrow> createTeamOption" where
  "editorTeam cm =
     (readOnlyTeam cm)\<lparr>includesAllRepositories := Some False, permission := Some Write\<rparr>"

definition adminTeam :: "common \<Rightarrow> createTeamOption" where
  "adminTeam cm = (editorTeam cm)\<lparr>permission := Some Admin\<rparr>"

subsection \<open>upsertTeam\<close>

text \<open>A default parameter value replaces \<open>undefined\<close>.\<close>

definition orDefault :: "'a list option \<Rightarrow> 'a list" where
  "orDefault xs = (case xs of None \<Rightarrow> [] | Some ys \<Rightarrow> ys)"

definition updatingTeam :: "common \<Rightarrow> createTeamOption \<Rightarrow> string" where
  \<open>updatingTeam cm teamOption =
     ''Updating team "'' @ name teamOption @ ''" in org "'' @ orgName cm @ ''"''\<close>

definition upsertTeam ::
  "common \<Rightarrow> team list option \<Rightarrow> backend \<Rightarrow> createTeamOption \<Rightarrow> state \<Rightarrow> state" where
  "upsertTeam cm existingTeams orgApi teamOption s =
     (case find (\<lambda>el. team_name el = Some (name teamOption)) (orDefault existingTeams) of
        Some existingTeam \<Rightarrow>
          snd (doApiCall orgApi (updatingTeam cm teamOption)
                 (OrgEditTeam (team_id existingTeam) teamOption) (Some 422) s)
      | None \<Rightarrow>
          snd (doApiCall orgApi (updatingTeam cm teamOption)
                 (OrgCreateTeam (orgName cm) teamOption) (Some 422) s))"

subsection \<open>Strings\<close>

text \<open>\<open>String.prototype.includes\<close>: the argument occurs as a contiguous part.\<close>

fun startsWith :: "string \<Rightarrow> string \<Rightarrow> bool" where
  "startsWith s [] = True"
| "startsWith [] (c # cs) = False"
| "startsWith (x # xs) (c # cs) = (x = c \<and> startsWith xs cs)"

fun includesStr :: "string \<Rightarrow> string \<Rightarrow> bool" where
  "includesStr [] searchString = (searchString = [])"
| "includesStr (x # xs) searchString =
     (startsWith (x # xs) searchString \<or> includesStr xs searchString)"

text \<open>A template literal prints an absent value as \<open>undefined\<close>.\<close>

definition str :: "string option \<Rightarrow> string" where
  "str v = (case v of None \<Rightarrow> ''undefined'' | Some t \<Rightarrow> t)"

subsection \<open>hasTektonHook\<close>

datatype exn = TypeError | HttpError nat string | Unavailable

text \<open>
  The \<open>forEach\<close> over the hooks, with the flag \<open>tektonHook\<close> it sets. Reading
  \<open>.includes\<close> of an absent \<open>url\<close> throws a \<open>TypeError\<close>, which ends the scan.
\<close>

fun forEachHook :: "hook list \<Rightarrow> bool \<Rightarrow> exn + bool" where
  "forEachHook [] tektonHook = Inr tektonHook"
| "forEachHook (hook # hooks) tektonHook =
     (case config hook of
        None \<Rightarrow> forEachHook hooks tektonHook
      | Some c \<Rightarrow>
          (case url c of
             None \<Rightarrow> Inl TypeError
           | Some u \<Rightarrow>
               if includesStr u ''el-tekton-listener'' then forEachHook hooks True
               else forEachHook hooks tektonHook))"

text \<open>
  The typed client answers a listing with a list of the right kind; any other body holds
  no hook with a \<open>config\<close>, and \<open>undefined\<close> skips the scan.
\<close>

definition gettingHooks :: string where
  \<open>gettingHooks = ''Getting hooks in repo "otomi/values"''\<close>

definition hasTektonHook :: "common \<Rightarrow> backend \<Rightarrow> state \<Rightarrow> (exn + bool) \<times> state" where
  "hasTektonHook cm repoApi s =
     (let (hooks, s') = doApiCall repoApi gettingHooks
                          (RepoListHooks (orgName cm) ''values'') (Some 400) s
      in case hooks of
           Some (Hooks hs) \<Rightarrow> (forEachHook hs False, s')
         | _ \<Rightarrow> (Inr False, s'))"

subsection \<open>upsertRepo\<close>

definition creatingRepo :: "common \<Rightarrow> repoOption \<Rightarrow> string" where
  \<open>creatingRepo cm repoOption =
     ''Creating repo "'' @ str (repoOption_name repoOption) @ ''" in org "'' @ orgName cm @ ''"''\<close>

definition updatingRepo :: "common \<Rightarrow> repoOption \<Rightarrow> string" where
  \<open>updatingRepo cm repoOption =
     ''Updating repo "'' @ str (repoOption_name repoOption) @ ''" in org "'' @ orgName cm @ ''"''\<close>

definition addingRepo :: "repoOption \<Rightarrow> string \<Rightarrow> string" where
  \<open>addingRepo repoOption teamName =
     ''Adding repo "'' @ str (repoOption_name repoOption) @ ''" to team "'' @ teamName @ ''"''\<close>

text \<open>
  The function has two suspension points. \<open>upsertRepoOrg\<close> is the part up to the first
  (create or edit), \<open>upsertRepoTeam\<close> the rest (the team binding under
  \<open>if (teamName)\<close>, which an absent and an empty string both fail), and \<open>upsertRepo\<close>
  runs one after the other.
\<close>

definition upsertRepoOrg ::
  "common \<Rightarrow> team list option \<Rightarrow> repository list option \<Rightarrow> backend \<Rightarrow> backend \<Rightarrow>
   repoOption \<Rightarrow> string option \<Rightarrow> state \<Rightarrow> state" where
  "upsertRepoOrg cm existingTeams existingRepos orgApi repoApi repoOption teamName s =
     (case find (\<lambda>el. repo_name el = repoOption_name repoOption) (orDefault existingRepos) of
        None \<Rightarrow>
          snd (doApiCall orgApi (creatingRepo cm repoOption)
                 (CreateOrgRepo (orgName cm) repoOption) (Some 422) s)
      | Some existingRepo \<Rightarrow>
          snd (doApiCall repoApi (updatingRepo cm repoOption)
                 (RepoEdit (orgName cm) (repoOption_name repoOption) repoOption) (Some 422) s))"

definition upsertRepoTeam ::
  "common \<Rightarrow> backend \<Rightarrow> repoOption \<Rightarrow> string option \<Rightarrow> state \<Rightarrow> state" where
  "upsertRepoTeam cm repoApi repoOption teamName s =
     (case teamName of
        None \<Rightarrow> s
      | Some t \<Rightarrow>
          if t \<noteq> [] then
            snd (doApiCall repoApi (addingRepo repoOption t)
                   (RepoAddTeam (orgName cm) (repoOption_name repoOption) t) (Some 422) s)
          else s)"

definition upsertRepo ::
  "common \<Rightarrow> team list option \<Rightarrow> repository list option \<Rightarrow> backend \<Rightarrow> backend \<Rightarrow>
   repoOption \<Rightarrow> string option \<Rightarrow> state \<Rightarrow> state" where
  "upsertRepo cm existingTeams existingRepos orgApi repoApi repoOption teamName s =
     upsertRepoTeam cm repoApi repoOption teamName
       (upsertRepoOrg cm existingTeams existingRepos orgApi repoApi repoOption teamName s)"

subsection \<open>addHook\<close>

record serviceSpec =
  clusterIP :: "string option"

record service =
  spec :: "serviceSpec option"

type_synonym k8s = "event list \<Rightarrow> string \<Rightarrow> string \<Rightarrow> exn + service"

definition readNamespacedService ::
  "k8s \<Rightarrow> string \<Rightarrow> string \<Rightarrow> state \<Rightarrow> (exn + service) \<times> state" where
  "readNamespacedService k8sApi serviceName namespace s =
     (k8sApi (trace s) serviceName namespace,
      s\<lparr>trace := trace s @ [ReadNamespacedService serviceName namespace]\<rparr>)"

definition defaultTektonUrl :: string where
  "defaultTektonUrl = ''http://el-tekton-listener.team-admin.svc.cluster.local:8080''"

text \<open>
  The \<open>try\<close> block: a failed lookup, and the \<open>TypeError\<close> of reading \<open>clusterIP\<close> of an
  absent \<open>spec\<close>, are caught and leave the default; an absent \<open>clusterIP\<close> is assigned
  as it is.
\<close>

definition resolveTektonUrl :: "exn + service \<Rightarrow> string option" where
  "resolveTektonUrl looked =
     (case looked of
        Inl error \<Rightarrow> Some defaultTektonUrl
      | Inr service \<Rightarrow>
          (case spec service of
             None \<Rightarrow> Some defaultTektonUrl
           | Some sp \<Rightarrow> clusterIP sp))"

definition tektonHookOption :: "string option \<Rightarrow> createHookOption" where
  "tektonHookOption tektonUrl =
     \<lparr>hook_type = Gitea,
      hook_config = \<lparr>url = tektonUrl, http_method = Some ''post'', content_type = Some ''json''\<rparr>,
      events = [''push'']\<rparr>"

definition addingHook :: string where
  \<open>addingHook = ''Adding hook "tekton" to repo otomi/values''\<close>

definition addHook :: "common \<Rightarrow> k8s \<Rightarrow> backend \<Rightarrow> state \<Rightarrow> (exn + unit) \<times> state" where
  "addHook cm k8sApi repoApi s =
     (let (looked, s1) = readNamespacedService k8sApi ''event-listener'' ''team-admin'' s;
          tektonUrl = resolveTektonUrl looked;
          (service, s2) = readNamespacedService k8sApi ''event-listener'' ''team-admin'' s1
      in case service of
           Inl error \<Rightarrow> (Inl error, s2)
         | Inr sv \<Rightarrow>
             (case hasTektonHook cm repoApi s2 of
                (Inl error, s3) \<Rightarrow> (Inl error, s3)
              | (Inr hasHooks, s3) \<Rightarrow>
                  if \<not> hasHooks then
                    (Inr (),
                     snd (doApiCall repoApi addingHook
                            (RepoCreateHook (orgName cm) ''values'' (tektonHookOption tektonUrl))
                            (Some 304) s3))
                  else (Inr (), s3)))"

subsection \<open>main\<close>

text \<open>The part of \<open>env.OTOMI_VALUES\<close> the task reads.\<close>

record selfServiceValues =
  selfService_apps :: "string list option"

record teamSettings =
  selfService :: "selfServiceValues option"

record argocdValues =
  enabled :: "bool option"

record appsValues =
  argocd :: "argocdValues option"

text \<open>An object is its list of entries, \<open>Object.keys\<close> the list of their keys.\<close>

record otomiValues =
  values_teamConfig :: "(string \<times> teamSettings) list option"
  values_apps :: "appsValues option"

definition teamConfig :: "otomiValues \<Rightarrow> (string \<times> teamSettings) list" where
  "teamConfig v = orDefault (values_teamConfig v)"

definition teamIds :: "otomiValues \<Rightarrow> string list" where
  "teamIds v = map fst (teamConfig v)"

definition hasArgo :: "otomiValues \<Rightarrow> bool" where
  "hasArgo v = (Option.bind (Option.bind (values_apps v) argocd) enabled = Some True)"

text \<open>
  The callback of the first \<open>teamIds.map\<close>: the team option that is handed to
  \<open>upsertTeam\<close> for a tenant.
\<close>

definition tenantTeam :: "common \<Rightarrow> otomiValues \<Rightarrow> string \<Rightarrow> createTeamOption" where
  "tenantTeam cm v teamId =
     (let name = ''team-'' @ teamId in
      if ''gitea'' \<in> set (orDefault
           (Option.bind (Option.bind (map_of (teamConfig v) teamId) selfService) selfService_apps))
      then (adminTeam cm)\<lparr>name := name\<rparr>
      else (editorTeam cm)\<lparr>name := name\<rparr>)"

text \<open>
  \<open>repoOption\<close> of \<open>main\<close>, for the shared values repository, and \<open>option\<close> of the
  callback of the second \<open>teamIds.map\<close>, for a tenant's companion repository.
\<close>

definition valuesRepoOption :: "common \<Rightarrow> repoOption" where
  "valuesRepoOption cm =
     \<lparr>autoInit = Some False,
      repoOption_name = Some (otomiValuesRepoName cm),
      repoOption_private = Some True\<rparr>"

definition argocdRepoOption :: "common \<Rightarrow> string \<Rightarrow> repoOption" where
  "argocdRepoOption cm teamId =
     (valuesRepoOption cm)\<lparr>autoInit := Some True,
                            repoOption_name := Some (''team-'' @ teamId @ ''-argocd'')\<rparr>"

text \<open>
  The result of a listing, read as the list the typed client gives; a failed call gives
  \<open>undefined\<close>.
\<close>

definition teamsOf :: "body option \<Rightarrow> team list option" where
  "teamsOf b = (case b of Some (Teams ts) \<Rightarrow> Some ts | _ \<Rightarrow> None)"

definition reposOf :: "body option \<Rightarrow> repository list option" where
  "reposOf b = (case b of Some (Repos rs) \<Rightarrow> Some rs | _ \<Rightarrow> None)"

text \<open>
  How a run of \<open>main\<close> ends: its promise rejects with an uncaught error; it returns at
  the \<open>if (!hasArgo) return\<close> without looking at the error log; it prints the errors
  and calls \<open>process.exit(1)\<close>; or it prints the success message and returns.
\<close>

datatype outcome = Rejected exn | ReturnedEarly | Exit1 "string list" | Succeeded

text \<open>What a run prints of the error log.\<close>

fun printedErrors :: "outcome \<Rightarrow> string list option" where
  "printedErrors (Exit1 es) = Some es"
| "printedErrors other = None"

text \<open>
  \<open>available\<close> tells whether \<open>waitTillAvailable\<close> returns. Both clients are built on the
  same backend. A fan-out through \<open>Promise.all\<close> starts the callbacks in the order of
  \<open>teamIds\<close>, each running up to its first suspension point; the model takes the schedule
  in which the answers arrive in that order too, so in the second fan-out every
  create-or-edit call precedes every team binding.
\<close>

definition main ::
  "common \<Rightarrow> otomiValues \<Rightarrow> bool \<Rightarrow> k8s \<Rightarrow> backend \<Rightarrow> state \<Rightarrow> outcome \<times> state" where
  \<open>main cm v available k8sApi api s0 =
     (if \<not> available then (Rejected Unavailable, s0)
      else
        let orgOption = \<lparr>org_username = orgName cm, repoAdminChangeTeamAccess = Some True\<rparr>;
            s1 = snd (doApiCall api (''Creating org "'' @ orgName cm @ ''"'')
                        (OrgCreate orgOption) (Some 422) s0);
            (teams, s2) = doApiCall api (''Getting all teams in org "'' @ orgName cm @ ''"'')
                            (OrgListTeams (orgName cm)) None s1;
            existingTeams = teamsOf teams;
            s3 = fold (\<lambda>teamId. upsertTeam cm existingTeams api (tenantTeam cm v teamId))
                   (teamIds v) s2;
            s4 = upsertTeam cm existingTeams api (readOnlyTeam cm) s3;
            repoOption = valuesRepoOption cm;
            (repos, s5) = doApiCall api (''Getting all repos in org "'' @ orgName cm @ ''"'')
                            (OrgListRepos (orgName cm)) None s4;
            existingRepos = reposOf repos;
            s6 = upsertRepo cm existingTeams existingRepos api api repoOption None s5;
            s7 = snd (doApiCall api ''Adding repo values to team otomi-viewer''
                        (RepoAddTeam (orgName cm) (Some ''values'') ''otomi-viewer'')
                        (Some 422) s6)
        in case addHook cm k8sApi api s7 of
             (Inl error, s8) \<Rightarrow> (Rejected error, s8)
           | (Inr done, s8) \<Rightarrow>
               if \<not> hasArgo v then (ReturnedEarly, s8)
               else
                 let s9 = fold (\<lambda>teamId. upsertRepoOrg cm existingTeams existingRepos api api
                                   (argocdRepoOption cm teamId) (Some (''team-'' @ teamId)))
                            (teamIds v) s8;
                     s10 = fold (\<lambda>teamId. upsertRepoTeam cm api
                                    (argocdRepoOption cm teamId) (Some (''team-'' @ teamId)))
                             (teamIds v) s9
                 in if errors s10 \<noteq> [] then (Exit1 (errors s10), s10)
                    else (Succeeded, s10))\<close>

section \<open>Vocabulary of the properties\<close>

text \<open>The events a step adds to the trace.\<close>

definition newEvents :: "state \<Rightarrow> state \<Rightarrow> event list" where
  "newEvents s s' = drop (length (trace s)) (trace s')"

fun isCreateTeam :: "event \<Rightarrow> bool" where
  "isCreateTeam (ApiCall a (OrgCreateTeam org opt) tol) = True"
| "isCreateTeam other = False"

fun isEditTeam :: "event \<Rightarrow> bool" where
  "isEditTeam (ApiCall a (OrgEditTeam i opt) tol) = True"
| "isEditTeam other = False"

fun isAddTeam :: "event \<Rightarrow> bool" where
  "isAddTeam (ApiCall a (RepoAddTeam org repo t) tol) = True"
| "isAddTeam other = False"

fun isCreateHook :: "event \<Rightarrow> bool" where
  "isCreateHook (ApiCall a (RepoCreateHook org repo opt) tol) = True"
| "isCreateHook other = False"

text \<open>The team option that a create-team or edit-team call carries.\<close>

fun teamOptionOf :: "event \<Rightarrow> createTeamOption option" where
  "teamOptionOf (ApiCall a (OrgEditTeam i opt) tol) = Some opt"
| "teamOptionOf (ApiCall a (OrgCreateTeam org opt) tol) = Some opt"
| "teamOptionOf other = None"

text \<open>The first two calls of \<open>main\<close>: the organization is created, the teams are listed.\<close>

definition creatingOrg :: "common \<Rightarrow> event" where
  \<open>creatingOrg cm =
     ApiCall (''Creating org "'' @ orgName cm @ ''"'')
       (OrgCreate \<lparr>org_username = orgName cm, repoAdminChangeTeamAccess = Some True\<rparr>) (Some 422)\<close>

definition gettingTeams :: "common \<Rightarrow> event" where
  \<open>gettingTeams cm =
     ApiCall (''Getting all teams in org "'' @ orgName cm @ ''"'') (OrgListTeams (orgName cm)) None\<close>

text \<open>An optional string is truthy when it is present and not empty.\<close>

definition truthy :: "string option \<Rightarrow> bool" where
  "truthy v = (case v of None \<Rightarrow> False | Some t \<Rightarrow> t \<noteq> [])"

text \<open>The tenant's self-service configuration lists the gitea app.\<close>

definition listsGitea :: "otomiValues \<Rightarrow> string \<Rightarrow> bool" where
  "listsGitea v teamId =
     (case map_of (teamConfig v) teamId of
        None \<Rightarrow> False
      | Some t \<Rightarrow>
          (case selfService t of
             None \<Rightarrow> False
           | Some ss \<Rightarrow>
               (case selfService_apps ss of
                  None \<Rightarrow> False
                | Some enabledApps \<Rightarrow> ''gitea'' \<in> set enabledApps)))"

text \<open>The hooks that the hook-listing call returns when it is made in state \<open>s\<close>.\<close>

definition listedHooks :: "common \<Rightarrow> backend \<Rightarrow> state \<Rightarrow> hook list" where
  "listedHooks cm repoApi s =
     (case repoApi (trace s) (RepoListHooks (orgName cm) ''values'') of
        Success (Hooks hs) \<Rightarrow> hs
      | _ \<Rightarrow> [])"

text \<open>A hook has a config whose url contains the listener's path segment.\<close>

definition isTektonHook :: "hook \<Rightarrow> bool" where
  "isTektonHook h =
     (case config h of
        None \<Rightarrow> False
      | Some c \<Rightarrow>
          (case url c of None \<Rightarrow> False | Some u \<Rightarrow> includesStr u ''el-tekton-listener''))"

text \<open>A hook that has a config has a url in it.\<close>

definition urlPresent :: "hook \<Rightarrow> bool" where
  "urlPresent h = (case config h of None \<Rightarrow> True | Some c \<Rightarrow> url c \<noteq> None)"

text \<open>The state after one lookup of the listener service.\<close>

definition lookedUp :: "k8s \<Rightarrow> state \<Rightarrow> state" where
  "lookedUp k8sApi s = snd (readNamespacedService k8sApi ''event-listener'' ''team-admin'' s)"

section \<open>Sample inputs\<close>

definition otomi :: common where
  "otomi = \<lparr>orgName = ''otomi'', otomiValuesRepoName = ''values'', teamNameViewer = ''otomi-viewer''\<rparr>"

text \<open>The error log is empty when the module is loaded.\<close>

definition freshState :: state where
  "freshState = \<lparr>errors = [], trace = []\<rparr>"

definition acceptAll :: backend where
  "acceptAll history c = Success NoContent"

definition listing :: "hook list \<Rightarrow> backend" where
  "listing hs history c =
     (case c of RepoListHooks org repo \<Rightarrow> Success (Hooks hs) | _ \<Rightarrow> Success NoContent)"

definition rejectOrg :: backend where
  "rejectOrg history c =
     (case c of
        OrgCreate opt \<Rightarrow> Failure 500 ''Internal Server Error''
      | OrgListTeams org \<Rightarrow> Success (Teams [])
      | OrgListRepos org \<Rightarrow> Success (Repos [])
      | RepoListHooks org repo \<Rightarrow> Success (Hooks [])
      | _ \<Rightarrow> Success NoContent)"

definition found :: "string \<Rightarrow> k8s" where
  "found ip history serviceName namespace = Inr \<lparr>spec = Some \<lparr>clusterIP = Some ip\<rparr>\<rparr>"

definition notFound :: k8s where
  "notFound history serviceName namespace = Inl (HttpError 404 ''Not Found'')"

text \<open>A service whose spec carries no cluster IP.\<close>

definition foundWithoutIP :: k8s where
  "foundWithoutIP history serviceName namespace = Inr \<lparr>spec = Some \<lparr>clusterIP = None\<rparr>\<rparr>"

definition tektonHooks :: "hook list" where
  "tektonHooks =
     [\<lparr>config = None\<rparr>,
      \<lparr>config = Some \<lparr>url = Some defaultTektonUrl, http_method = None,
                      content_type = Some ''json''\<rparr>\<rparr>]"

definition brokenHooks :: "hook list" where
  "brokenHooks =
     [\<lparr>config = Some \<lparr>url = None, http_method = None, content_type = Some ''json''\<rparr>\<rparr>,
      \<lparr>config = Some \<lparr>url = Some defaultTektonUrl, http_method = None,
                      content_type = Some ''json''\<rparr>\<rparr>]"

definition tenants :: "appsValues option \<Rightarrow> otomiValues" where
  "tenants a =
     \<lparr>values_teamConfig =
        Some [(''a'', \<lparr>selfService = Some \<lparr>selfService_apps = Some [''gitea'']\<rparr>\<rparr>),
              (''b'', \<lparr>selfService = None\<rparr>)],
      values_apps = a\<rparr>"

definition argoOff :: otomiValues where
  "argoOff = tenants None"

definition argoOn :: otomiValues where
  "argoOn = tenants (Some \<lparr>argocd = Some \<lparr>enabled = Some True\<rparr>\<rparr>)"

section \<open>Auxiliary facts\<close>

lemma startsWith_prefix: "startsWith s t \<longleftrightarrow> prefix t s"
  by (induction s t rule: startsWith.induct) auto

lemma includesStr_sublist: "includesStr s t \<longleftrightarrow> sublist t s"
  by (induction s) (auto simp: startsWith_prefix sublist_Cons_right)

lemma doApiCall_trace:
  "trace (snd (doApiCall api action fn tolerated s)) = trace s @ [ApiCall action fn tolerated]"
  by (simp add: doApiCall_def Let_def split: response.split)

lemma tenantTeam_cases:
  "tenantTeam cm v teamId =
     (if listsGitea v teamId then (adminTeam cm)\<lparr>name := ''team-'' @ teamId\<rparr>
      else (editorTeam cm)\<lparr>name := ''team-'' @ teamId\<rparr>)"
  by (simp add: tenantTeam_def listsGitea_def orDefault_def Let_def split: option.split)

lemma upsertRepoOrg_trace:
  "trace (upsertRepoOrg cm existingTeams existingRepos orgApi repoApi repoOption teamName s) =
   trace s @
   [if \<exists>r \<in> set (orDefault existingRepos). repo_name r = repoOption_name repoOption
    then ApiCall (updatingRepo cm repoOption)
           (RepoEdit (orgName cm) (repoOption_name repoOption) repoOption) (Some 422)
    else ApiCall (creatingRepo cm repoOption)
           (CreateOrgRepo (orgName cm) repoOption) (Some 422)]"
proof (cases "find (\<lambda>el. repo_name el = repoOption_name repoOption) (orDefault existingRepos)")
  case None
  then have "\<not> (\<exists>r \<in> set (orDefault existingRepos). repo_name r = repoOption_name repoOption)"
    by (simp add: find_None_iff)
  with None show ?thesis
    by (simp add: upsertRepoOrg_def doApiCall_trace)
next
  case (Some r)
  then have "r \<in> set (orDefault existingRepos) \<and> repo_name r = repoOption_name repoOption"
    by (auto simp: find_Some_iff)
  then have "\<exists>r \<in> set (orDefault existingRepos). repo_name r = repoOption_name repoOption"
    by blast
  with Some show ?thesis
    by (simp add: upsertRepoOrg_def doApiCall_trace)
qed

lemma upsertRepoTeam_trace:
  "trace (upsertRepoTeam cm repoApi repoOption teamName s) =
   trace s @
   (case teamName of
      None \<Rightarrow> []
    | Some t \<Rightarrow>
        if t = [] then []
        else [ApiCall (addingRepo repoOption t)
                (RepoAddTeam (orgName cm) (repoOption_name repoOption) t) (Some 422)])"
  by (simp add: upsertRepoTeam_def doApiCall_trace split: option.split)

lemma forEachHook_returns:
  "(\<exists>b. forEachHook hooks t = Inr b) \<longleftrightarrow> list_all urlPresent hooks"
  by (induction hooks arbitrary: t) (auto simp: urlPresent_def split: option.splits)

lemma forEachHook_found:
  "list_all urlPresent hooks \<Longrightarrow>
   forEachHook hooks t = Inr (t \<or> list_ex isTektonHook hooks)"
  by (induction hooks arbitrary: t)
     (auto simp: urlPresent_def isTektonHook_def split: option.splits)

lemma hasTektonHook_fst:
  "fst (hasTektonHook cm repoApi s) = forEachHook (listedHooks cm repoApi s) False"
  by (simp add: hasTektonHook_def listedHooks_def doApiCall_def Let_def
        split: response.split body.split prod.split)

lemma hasTektonHook_trace:
  "trace (snd (hasTektonHook cm repoApi s)) =
   trace s @ [ApiCall gettingHooks (RepoListHooks (orgName cm) ''values'') (Some 400)]"
  by (simp add: hasTektonHook_def doApiCall_def Let_def
        split: response.split body.split prod.split option.split)

lemma lookedUp_trace:
  "trace (lookedUp k8sApi s) = trace s @ [ReadNamespacedService ''event-listener'' ''team-admin'']"
  by (simp add: lookedUp_def readNamespacedService_def)

lemma isTektonHook_default:
  "isTektonHook \<lparr>config = Some \<lparr>url = Some defaultTektonUrl, http_method = m, content_type = t\<rparr>\<rparr>"
  by (simp add: isTektonHook_def defaultTektonUrl_def)

text \<open>
  What \<open>addHook\<close> does, as a trace: two lookups; then, unless the second one throws, the
  hook listing; then, when the detection returns false, the hook creation.
\<close>

lemma addHook_newEvents:
  "newEvents s (snd (addHook cm k8sApi repoApi s)) =
   [ReadNamespacedService ''event-listener'' ''team-admin'',
    ReadNamespacedService ''event-listener'' ''team-admin''] @
   (case k8sApi (trace (lookedUp k8sApi s)) ''event-listener'' ''team-admin'' of
      Inl error \<Rightarrow> []
    | Inr sv \<Rightarrow>
        ApiCall gettingHooks (RepoListHooks (orgName cm) ''values'') (Some 400) #
        (if fst (hasTektonHook cm repoApi (lookedUp k8sApi (lookedUp k8sApi s))) = Inr False
         then [ApiCall addingHook
                 (RepoCreateHook (orgName cm) ''values''
                    (tektonHookOption
                       (resolveTektonUrl (k8sApi (trace s) ''event-listener'' ''team-admin''))))
                 (Some 304)]
         else []))"
proof -
  let ?s1 = "lookedUp k8sApi s"
  let ?s2 = "lookedUp k8sApi ?s1"
  have t2: "trace ?s2 = trace s @ [ReadNamespacedService ''event-listener'' ''team-admin'',
    ReadNamespacedService ''event-listener'' ''team-admin'']"
    by (simp add: lookedUp_trace)
  show ?thesis
  proof (cases "k8sApi (trace ?s1) ''event-listener'' ''team-admin''")
    case (Inl e)
    then show ?thesis using t2
      by (simp add: addHook_def newEvents_def readNamespacedService_def lookedUp_def
            split: prod.split)
  next
    case (Inr sv)
    obtain r s3 where h: "hasTektonHook cm repoApi ?s2 = (r, s3)"
      by (cases "hasTektonHook cm repoApi ?s2")
    have t3: "trace s3 =
        trace ?s2 @ [ApiCall gettingHooks (RepoListHooks (orgName cm) ''values'') (Some 400)]"
      using hasTektonHook_trace [of cm repoApi ?s2] h by simp
    show ?thesis
    proof (cases r)
      case (Inl e)
      with Inr h t2 t3 show ?thesis
        by (simp add: addHook_def newEvents_def readNamespacedService_def lookedUp_def
            split: prod.split)
    next
      case r: (Inr b)
      with Inr h t2 t3 show ?thesis
        by (simp add: addHook_def newEvents_def readNamespacedService_def lookedUp_def
               doApiCall_trace split: prod.split)
    qed
  qed
qed

text \<open>Every step only appends to the trace.\<close>

lemma doApiCall_prefix: "prefix (trace s) (trace (snd (doApiCall api action fn tolerated s)))"
  by (simp add: doApiCall_trace)

lemma upsertTeam_event:
  "\<exists>ev. trace (upsertTeam cm existingTeams orgApi teamOption s) = trace s @ [ev] \<and>
        teamOptionOf ev = Some teamOption"
  by (simp add: upsertTeam_def doApiCall_trace split: option.split)

lemma upsertTeam_prefix: "prefix (trace s) (trace (upsertTeam cm existingTeams orgApi teamOption s))"
  using upsertTeam_event [of cm existingTeams orgApi teamOption s] by auto

lemma fanout_events:
  "\<exists>evs. trace (fold (\<lambda>teamId. upsertTeam cm existingTeams orgApi (f teamId)) ids s)
            = trace s @ evs \<and>
         map teamOptionOf evs = map (\<lambda>teamId. Some (f teamId)) ids"
proof (induction ids arbitrary: s)
  case Nil
  show ?case by simp
next
  case (Cons teamId ids)
  obtain ev where ev: "trace (upsertTeam cm existingTeams orgApi (f teamId) s) = trace s @ [ev]"
      "teamOptionOf ev = Some (f teamId)"
    using upsertTeam_event by blast
  obtain evs where evs:
      "trace (fold (\<lambda>teamId. upsertTeam cm existingTeams orgApi (f teamId)) ids
                (upsertTeam cm existingTeams orgApi (f teamId) s))
         = trace (upsertTeam cm existingTeams orgApi (f teamId) s) @ evs"
      "map teamOptionOf evs = map (\<lambda>teamId. Some (f teamId)) ids"
    using Cons.IH by blast
  from ev evs show ?case by simp
qed

lemma upsertRepoOrg_prefix:
  "prefix (trace s) (trace (upsertRepoOrg cm existingTeams existingRepos orgApi repoApi repoOption teamName s))"
  by (simp add: upsertRepoOrg_trace)

lemma upsertRepoTeam_prefix:
  "prefix (trace s) (trace (upsertRepoTeam cm repoApi repoOption teamName s))"
  by (simp add: upsertRepoTeam_trace)

lemma upsertRepo_prefix:
  "prefix (trace s) (trace (upsertRepo cm existingTeams existingRepos orgApi repoApi repoOption teamName s))"
  unfolding upsertRepo_def
  by (rule prefix_order.trans [OF upsertRepoOrg_prefix upsertRepoTeam_prefix])

lemma fold_prefix:
  "(\<And>x s. prefix (trace s) (trace (g x s))) \<Longrightarrow> prefix (trace s) (trace (fold g xs s))"
proof (induction xs arbitrary: s)
  case Nil
  show ?case by simp
next
  case (Cons x xs)
  have "prefix (trace s) (trace (g x s))" by (rule Cons.prems)
  also have "prefix (trace (g x s)) (trace (fold g xs (g x s)))"
    by (rule Cons.IH) (rule Cons.prems)
  finally show ?case by simp
qed

lemma addHook_prefix: "prefix (trace s) (trace (snd (addHook cm k8sApi repoApi s)))"
proof -
  let ?s2 = "lookedUp k8sApi (lookedUp k8sApi s)"
  have p2: "prefix (trace s) (trace ?s2)"
    by (simp add: lookedUp_trace)
  have p3: "prefix (trace ?s2) (trace (snd (hasTektonHook cm repoApi ?s2)))"
    by (simp add: hasTektonHook_trace)
  show ?thesis
    using p2 p3 prefix_order.trans [OF p2 p3]
      prefix_order.trans [OF prefix_order.trans [OF p2 p3] doApiCall_prefix]
    by (auto simp: addHook_def lookedUp_def readNamespacedService_def Let_def
          split: prod.splits sum.splits)
qed

text \<open>
  The trace of \<open>main\<close>, once the backend is available: the organization creation, the
  team listing, then one team call for each tenant, in the order of \<open>teamIds\<close>, carrying
  that tenant's option; the rest of the run follows.
\<close>

lemma main_trace:
  "\<exists>evs rest.
     trace (snd (main cm v True k8sApi api s0))
       = trace s0 @ [creatingOrg cm, gettingTeams cm] @ evs @ rest \<and>
     map teamOptionOf evs = map (\<lambda>teamId. Some (tenantTeam cm v teamId)) (teamIds v)"
proof -
  define s1 where \<open>s1 = snd (doApiCall api (''Creating org "'' @ orgName cm @ ''"'')
      (OrgCreate \<lparr>org_username = orgName cm, repoAdminChangeTeamAccess = Some True\<rparr>) (Some 422) s0)\<close>
  define r2 where \<open>r2 = doApiCall api (''Getting all teams in org "'' @ orgName cm @ ''"'')
      (OrgListTeams (orgName cm)) None s1\<close>
  define ets where "ets = teamsOf (fst r2)"
  define s3 where "s3 = fold (\<lambda>teamId. upsertTeam cm ets api (tenantTeam cm v teamId))
      (teamIds v) (snd r2)"
  define s4 where "s4 = upsertTeam cm ets api (readOnlyTeam cm) s3"
  define r5 where \<open>r5 = doApiCall api (''Getting all repos in org "'' @ orgName cm @ ''"'')
      (OrgListRepos (orgName cm)) None s4\<close>
  define ers where "ers = reposOf (fst r5)"
  define s6 where "s6 = upsertRepo cm ets ers api api (valuesRepoOption cm) None (snd r5)"
  define s7 where "s7 = snd (doApiCall api ''Adding repo values to team otomi-viewer''
      (RepoAddTeam (orgName cm) (Some ''values'') ''otomi-viewer'') (Some 422) s6)"
  define r8 where "r8 = addHook cm k8sApi api s7"
  define s9 where "s9 = fold (\<lambda>teamId. upsertRepoOrg cm ets ers api api
      (argocdRepoOption cm teamId) (Some (''team-'' @ teamId))) (teamIds v) (snd r8)"
  define s10 where "s10 = fold (\<lambda>teamId. upsertRepoTeam cm api
      (argocdRepoOption cm teamId) (Some (''team-'' @ teamId))) (teamIds v) s9"
  have final: "snd (main cm v True k8sApi api s0) = snd r8 \<or> snd (main cm v True k8sApi api s0) = s10"
    unfolding main_def s10_def s9_def r8_def s7_def s6_def ers_def r5_def s4_def s3_def ets_def
      r2_def s1_def
    by (simp add: Let_def split_beta split: sum.split)
  have t2: "trace (snd r2) = trace s0 @ [creatingOrg cm, gettingTeams cm]"
    by (simp add: r2_def s1_def doApiCall_trace creatingOrg_def gettingTeams_def)
  obtain evs where evs: "trace s3 = trace (snd r2) @ evs"
      "map teamOptionOf evs = map (\<lambda>teamId. Some (tenantTeam cm v teamId)) (teamIds v)"
    unfolding s3_def using fanout_events [of cm ets api "tenantTeam cm v" "teamIds v" "snd r2"]
    by blast
  have "prefix (trace s3) (trace s4)"
    by (simp add: s4_def upsertTeam_prefix)
  also have "prefix (trace s4) (trace (snd r5))"
    by (simp add: r5_def doApiCall_prefix)
  also have "prefix (trace (snd r5)) (trace s6)"
    by (simp add: s6_def upsertRepo_prefix)
  also have "prefix (trace s6) (trace s7)"
    by (simp add: s7_def doApiCall_prefix)
  also have "prefix (trace s7) (trace (snd r8))"
    by (simp add: r8_def addHook_prefix)
  finally have p8: "prefix (trace s3) (trace (snd r8))" .
  have "prefix (trace (snd r8)) (trace s9)"
    unfolding s9_def by (rule fold_prefix) (rule upsertRepoOrg_prefix)
  also have "prefix (trace s9) (trace s10)"
    unfolding s10_def by (rule fold_prefix) (rule upsertRepoTeam_prefix)
  finally have "prefix (trace (snd r8)) (trace s10)" .
  with p8 have p10: "prefix (trace s3) (trace s10)"
    by (rule prefix_order.trans)
  from final p8 p10 have "prefix (trace s3) (trace (snd (main cm v True k8sApi api s0)))"
    by auto
  then obtain rest where "trace (snd (main cm v True k8sApi api s0)) = trace s3 @ rest"
    by (auto simp: prefix_def)
  with evs t2 have "trace (snd (main cm v True k8sApi api s0))
      = trace s0 @ [creatingOrg cm, gettingTeams cm] @ evs @ rest"
    by simp
  with evs(2) show ?thesis by blast
qed

section \<open>The team reconciler\<close>

text \<open>
  C1: for every list of existing teams and every desired team option, \<open>upsertTeam\<close> adds
  exactly one backend call to the trace. If some existing team has exactly the desired
  name, the call is the edit-team operation with the id of such a team, tolerating 422,
  and it is no create call; otherwise it is the create-team operation, tolerating 422,
  and it is no edit call.
\<close>

theorem upsertTeam_one_call:
  "\<exists>ev. trace (upsertTeam cm existingTeams orgApi teamOption s) = trace s @ [ev] \<and>
     (if \<exists>t \<in> set (orDefault existingTeams). team_name t = Some (name teamOption)
      then (\<exists>t \<in> set (orDefault existingTeams). team_name t = Some (name teamOption) \<and>
              ev = ApiCall (updatingTeam cm teamOption)
                     (OrgEditTeam (team_id t) teamOption) (Some 422))
           \<and> \<not> isCreateTeam ev
      else ev = ApiCall (updatingTeam cm teamOption)
                  (OrgCreateTeam (orgName cm) teamOption) (Some 422)
           \<and> \<not> isEditTeam ev)"
proof (cases "find (\<lambda>el. team_name el = Some (name teamOption)) (orDefault existingTeams)")
  case None
  then have "\<not> (\<exists>t \<in> set (orDefault existingTeams). team_name t = Some (name teamOption))"
    by (simp add: find_None_iff)
  with None show ?thesis
    by (simp add: upsertTeam_def doApiCall_trace)
next
  case (Some t)
  then have "t \<in> set (orDefault existingTeams) \<and> team_name t = Some (name teamOption)"
    by (auto simp: find_Some_iff)
  with Some show ?thesis
    by (auto simp: upsertTeam_def doApiCall_trace)
qed

text \<open>With team \<open>team-a\<close> present under id 7, the one call edits team 7.\<close>

theorem upsertTeam_one_call_witness:
  \<open>trace (upsertTeam otomi (Some [\<lparr>team_id = Some 7, team_name = Some ''team-a''\<rparr>]) acceptAll
            ((editorTeam otomi)\<lparr>name := ''team-a''\<rparr>) freshState)
   = [ApiCall ''Updating team "team-a" in org "otomi"''
        (OrgEditTeam (Some 7) ((editorTeam otomi)\<lparr>name := ''team-a''\<rparr>)) (Some 422)]\<close>
  using upsertTeam_one_call [where cm = otomi and orgApi = acceptAll and s = freshState
      and existingTeams = "Some [\<lparr>team_id = Some 7, team_name = Some ''team-a''\<rparr>]"
      and teamOption = "(editorTeam otomi)\<lparr>name := ''team-a''\<rparr>"]
  by (simp add: orDefault_def freshState_def updatingTeam_def otomi_def)

text \<open>
  C2: in every run of \<open>main\<close> that gets past the availability wait, the calls after
  the organization creation and the team listing are the team calls of the tenants, one
  for each configured tenant in the order of \<open>teamIds\<close>, and the team option that
  \<open>upsertTeam\<close> is given for a tenant, and sends, is the Admin template exactly when the
  tenant's self-service configuration lists the gitea app and the Write (editor)
  template otherwise; its name is \<open>team-<tenantId>\<close> in both cases.
\<close>

theorem main_tenant_team_options:
  "take 2 (newEvents s0 (snd (main cm v True k8sApi api s0)))
     = [creatingOrg cm, gettingTeams cm] \<and>
   map teamOptionOf
     (take (length (teamIds v)) (drop 2 (newEvents s0 (snd (main cm v True k8sApi api s0)))))
     = map (\<lambda>teamId. Some ((if listsGitea v teamId then adminTeam cm else editorTeam cm)
                              \<lparr>name := ''team-'' @ teamId\<rparr>)) (teamIds v) \<and>
   permission (adminTeam cm) = Some Admin \<and>
   permission (editorTeam cm) = Some Write \<and>
   name (tenantTeam cm v teamId) = ''team-'' @ teamId \<and>
   (tenantTeam cm v teamId = (adminTeam cm)\<lparr>name := ''team-'' @ teamId\<rparr>
      \<longleftrightarrow> listsGitea v teamId) \<and>
   (tenantTeam cm v teamId = (editorTeam cm)\<lparr>name := ''team-'' @ teamId\<rparr>
      \<longleftrightarrow> \<not> listsGitea v teamId) \<and>
   (permission (tenantTeam cm v teamId) = Some Admin \<longleftrightarrow> listsGitea v teamId) \<and>
   (permission (tenantTeam cm v teamId) = Some Write \<longleftrightarrow> \<not> listsGitea v teamId)"
proof -
  obtain evs rest where tr:
      "trace (snd (main cm v True k8sApi api s0))
         = trace s0 @ [creatingOrg cm, gettingTeams cm] @ evs @ rest"
      "map teamOptionOf evs = map (\<lambda>teamId. Some (tenantTeam cm v teamId)) (teamIds v)"
    using main_trace by blast
  from tr(2) have len: "length evs = length (teamIds v)"
    by (rule map_eq_imp_length_eq)
  have new: "newEvents s0 (snd (main cm v True k8sApi api s0))
        = [creatingOrg cm, gettingTeams cm] @ evs @ rest"
    using tr(1) by (simp add: newEvents_def)
  have first: "take 2 (newEvents s0 (snd (main cm v True k8sApi api s0)))
     = [creatingOrg cm, gettingTeams cm]"
    by (simp add: new)
  have "take (length (teamIds v)) (drop 2 (newEvents s0 (snd (main cm v True k8sApi api s0))))
      = evs"
    by (simp add: new len)
  with tr(2) have fan: "map teamOptionOf
     (take (length (teamIds v)) (drop 2 (newEvents s0 (snd (main cm v True k8sApi api s0)))))
     = map (\<lambda>teamId. Some ((if listsGitea v teamId then adminTeam cm else editorTeam cm)
                              \<lparr>name := ''team-'' @ teamId\<rparr>)) (teamIds v)"
    by (simp add: tenantTeam_cases if_distrib [of "\<lambda>t. t\<lparr>name := n\<rparr>" for n] cong: if_cong)
  have rest: "permission (adminTeam cm) = Some Admin \<and>
   permission (editorTeam cm) = Some Write \<and>
   name (tenantTeam cm v teamId) = ''team-'' @ teamId \<and>
   (tenantTeam cm v teamId = (adminTeam cm)\<lparr>name := ''team-'' @ teamId\<rparr>
      \<longleftrightarrow> listsGitea v teamId) \<and>
   (tenantTeam cm v teamId = (editorTeam cm)\<lparr>name := ''team-'' @ teamId\<rparr>
      \<longleftrightarrow> \<not> listsGitea v teamId) \<and>
   (permission (tenantTeam cm v teamId) = Some Admin \<longleftrightarrow> listsGitea v teamId) \<and>
   (permission (tenantTeam cm v teamId) = Some Write \<longleftrightarrow> \<not> listsGitea v teamId)"
    by (simp add: tenantTeam_cases adminTeam_def editorTeam_def readOnlyTeam_def)
  from first fan rest show ?thesis by blast
qed

text \<open>
  Tenant \<open>a\<close> lists gitea and tenant \<open>b\<close> does not: the third and fourth call of the run
  carry the Admin template named \<open>team-a\<close> and the editor template named \<open>team-b\<close>.
\<close>

theorem main_tenant_team_options_witness:
  "teamIds argoOff = [''a'', ''b''] \<and> listsGitea argoOff ''a'' \<and> \<not> listsGitea argoOff ''b'' \<and>
   map teamOptionOf
     (take 2 (drop 2 (newEvents freshState
        (snd (main otomi argoOff True (found ''10.0.0.1'') acceptAll freshState)))))
     = [Some ((adminTeam otomi)\<lparr>name := ''team-a''\<rparr>),
        Some ((editorTeam otomi)\<lparr>name := ''team-b''\<rparr>)]"
proof -
  have ids: "teamIds argoOff = [''a'', ''b'']"
    by (simp add: teamIds_def teamConfig_def argoOff_def tenants_def orDefault_def)
  have a: "listsGitea argoOff ''a''"
    by (simp add: listsGitea_def argoOff_def tenants_def teamConfig_def orDefault_def)
  have b: "\<not> listsGitea argoOff ''b''"
    by (simp add: listsGitea_def argoOff_def tenants_def teamConfig_def orDefault_def)
  have "map teamOptionOf
     (take (length (teamIds argoOff)) (drop 2 (newEvents freshState
        (snd (main otomi argoOff True (found ''10.0.0.1'') acceptAll freshState)))))
     = map (\<lambda>teamId. Some ((if listsGitea argoOff teamId then adminTeam otomi
                                else editorTeam otomi)\<lparr>name := ''team-'' @ teamId\<rparr>))
         (teamIds argoOff)"
    using main_tenant_team_options [of freshState otomi argoOff "found ''10.0.0.1''" acceptAll]
    by blast
  then have "map teamOptionOf
     (take 2 (drop 2 (newEvents freshState
        (snd (main otomi argoOff True (found ''10.0.0.1'') acceptAll freshState)))))
     = [Some ((adminTeam otomi)\<lparr>name := ''team-a''\<rparr>),
        Some ((editorTeam otomi)\<lparr>name := ''team-b''\<rparr>)]"
    by (simp add: ids a b numeral_2_eq_2)
  with ids a b show ?thesis by blast
qed

text \<open>
  C7: the viewer team option has permission Read and \<open>includesAllRepositories = true\<close>;
  the editor and admin templates and every tenant's team option have
  \<open>includesAllRepositories = false\<close>; and the tiers of the three templates are strictly
  ordered, Read below Write below Admin.
\<close>

theorem templates_invariant:
  "permission (readOnlyTeam cm) = Some Read \<and>
   includesAllRepositories (readOnlyTeam cm) = Some True \<and>
   includesAllRepositories (editorTeam cm) = Some False \<and>
   includesAllRepositories (adminTeam cm) = Some False \<and>
   includesAllRepositories (tenantTeam cm v teamId) = Some False \<and>
   permission (editorTeam cm) = Some Write \<and>
   permission (adminTeam cm) = Some Admin \<and>
   permission_tier Read < permission_tier Write \<and>
   permission_tier Write < permission_tier Admin"
  by (simp add: tenantTeam_cases adminTeam_def editorTeam_def readOnlyTeam_def)

section \<open>The repository reconciler\<close>

text \<open>
  C3, as the code has it: \<open>upsertRepo\<close> first makes one call, the repository edit when
  a repository of the option's name is among the existing ones and the repository
  creation otherwise, tolerating 422 in both branches. After it, in both branches, it
  attempts the team binding, tolerating 422, exactly when the team name is truthy, that is
  supplied and not the empty string; it makes no other call.
\<close>

theorem upsertRepo_binds_iff_truthy:
  "\<exists>ev. newEvents s (upsertRepo cm existingTeams existingRepos orgApi repoApi repoOption teamName s)
         = ev # (case teamName of
                   None \<Rightarrow> []
                 | Some t \<Rightarrow>
                     if t = [] then []
                     else [ApiCall (addingRepo repoOption t)
                             (RepoAddTeam (orgName cm) (repoOption_name repoOption) t)
                             (Some 422)]) \<and>
     (if \<exists>r \<in> set (orDefault existingRepos). repo_name r = repoOption_name repoOption
      then ev = ApiCall (updatingRepo cm repoOption)
                  (RepoEdit (orgName cm) (repoOption_name repoOption) repoOption) (Some 422)
      else ev = ApiCall (creatingRepo cm repoOption)
                  (CreateOrgRepo (orgName cm) repoOption) (Some 422)) \<and>
     (list_ex isAddTeam
        (newEvents s (upsertRepo cm existingTeams existingRepos orgApi repoApi repoOption teamName s))
      \<longleftrightarrow> truthy teamName)"
  by (simp add: newEvents_def upsertRepo_def upsertRepoTeam_trace upsertRepoOrg_trace truthy_def
        split: option.split)

text \<open>An existing companion repository is edited and then bound to its team.\<close>

theorem upsertRepo_binds_iff_truthy_witness:
  "truthy (Some ''team-a'') \<and>
   newEvents freshState
     (upsertRepo otomi None (Some [\<lparr>repo_name = Some ''team-a-argocd''\<rparr>]) acceptAll acceptAll
        (argocdRepoOption otomi ''a'') (Some ''team-a'') freshState)
   = [ApiCall (updatingRepo otomi (argocdRepoOption otomi ''a''))
        (RepoEdit ''otomi'' (Some ''team-a-argocd'') (argocdRepoOption otomi ''a'')) (Some 422),
      ApiCall (addingRepo (argocdRepoOption otomi ''a'') ''team-a'')
        (RepoAddTeam ''otomi'' (Some ''team-a-argocd'') ''team-a'') (Some 422)]"
  using upsertRepo_binds_iff_truthy [where s = freshState and cm = otomi and existingTeams = None
      and existingRepos = "Some [\<lparr>repo_name = Some ''team-a-argocd''\<rparr>]"
      and orgApi = acceptAll and repoApi = acceptAll
      and repoOption = "argocdRepoOption otomi ''a''" and teamName = "Some ''team-a''"]
  by (auto simp: truthy_def orDefault_def argocdRepoOption_def valuesRepoOption_def otomi_def)

text \<open>
  C3 as it is stated fails: the empty string is a supplied team name, and \<open>upsertRepo\<close>
  makes no binding call for it.
\<close>

theorem upsertRepo_empty_teamName_counterexample:
  "Some [] \<noteq> (None :: string option) \<and>
   \<not> list_ex isAddTeam
       (trace (upsertRepo otomi None None acceptAll acceptAll (valuesRepoOption otomi)
                 (Some []) freshState))"
  by (simp add: upsertRepo_def upsertRepoTeam_trace upsertRepoOrg_trace
        freshState_def orDefault_def)

text \<open>
  C10: \<open>upsertRepo\<close> does not depend on \<open>existingTeams\<close>: with any two values of that
  argument and everything else equal, it ends in the same state, so it makes the same
  backend calls and records the same errors.
\<close>

theorem upsertRepo_ignores_existingTeams:
  "upsertRepo cm existingTeams existingRepos orgApi repoApi repoOption teamName s =
   upsertRepo cm existingTeams' existingRepos orgApi repoApi repoOption teamName s"
  by (simp add: upsertRepo_def upsertRepoOrg_def)

section \<open>The hook reconciler\<close>

text \<open>
  C9: the scan of \<open>hasTektonHook\<close> checks only that a hook has a config before it reads
  the url. It returns without a runtime error exactly for the hook lists in which every
  hook that has a config has a url in it: the condition is sufficient, and necessary.
\<close>

theorem forEachHook_total_iff:
  "(\<exists>tektonHook. forEachHook hooks False = Inr tektonHook) \<longleftrightarrow> list_all urlPresent hooks"
  by (rule forEachHook_returns)

text \<open>A list that meets the condition is scanned; one that does not throws.\<close>

theorem forEachHook_total_iff_witness:
  "list_all urlPresent tektonHooks \<and> forEachHook tektonHooks False = Inr True \<and>
   \<not> list_all urlPresent brokenHooks \<and> forEachHook brokenHooks False = Inl TypeError"
proof -
  have good: "list_all urlPresent tektonHooks"
    by (simp add: tektonHooks_def urlPresent_def)
  have bad: "\<not> list_all urlPresent brokenHooks"
    by (simp add: brokenHooks_def urlPresent_def)
  have "forEachHook tektonHooks False = Inr True"
    using forEachHook_total_iff [of tektonHooks] good
    by (simp add: tektonHooks_def defaultTektonUrl_def)
  moreover have "forEachHook brokenHooks False = Inl TypeError"
    using forEachHook_total_iff [of brokenHooks] bad
    by (simp add: brokenHooks_def)
  ultimately show ?thesis
    using good bad by simp
qed

text \<open>
  C4, as the code has it: when every listed hook that has a config has a url in it,
  \<open>hasTektonHook\<close> returns true exactly when some listed hook's config url contains
  \<open>el-tekton-listener\<close>. And \<open>addHook\<close> issues a hook-create call exactly when it reaches
  \<open>hasTektonHook\<close> (its second service lookup returns) and \<open>hasTektonHook\<close> returns
  false there.
\<close>

theorem hook_detection_and_creation:
  "(list_all urlPresent (listedHooks cm repoApi s) \<longrightarrow>
      fst (hasTektonHook cm repoApi s) = Inr (list_ex isTektonHook (listedHooks cm repoApi s))) \<and>
   (list_ex isCreateHook (newEvents s (snd (addHook cm k8sApi repoApi s))) \<longleftrightarrow>
      (\<exists>sv. k8sApi (trace (lookedUp k8sApi s)) ''event-listener'' ''team-admin'' = Inr sv) \<and>
      fst (hasTektonHook cm repoApi (lookedUp k8sApi (lookedUp k8sApi s))) = Inr False)"
proof
  show "list_all urlPresent (listedHooks cm repoApi s) \<longrightarrow>
      fst (hasTektonHook cm repoApi s) = Inr (list_ex isTektonHook (listedHooks cm repoApi s))"
    by (simp add: hasTektonHook_fst forEachHook_found)
next
  show "list_ex isCreateHook (newEvents s (snd (addHook cm k8sApi repoApi s))) \<longleftrightarrow>
      (\<exists>sv. k8sApi (trace (lookedUp k8sApi s)) ''event-listener'' ''team-admin'' = Inr sv) \<and>
      fst (hasTektonHook cm repoApi (lookedUp k8sApi (lookedUp k8sApi s))) = Inr False"
    by (simp add: addHook_newEvents split: sum.split)
qed

text \<open>With a listener hook installed, detection returns true and no hook is created.\<close>

theorem hook_detection_and_creation_witness:
  "list_all urlPresent (listedHooks otomi (listing tektonHooks) freshState) \<and>
   fst (hasTektonHook otomi (listing tektonHooks) freshState) = Inr True \<and>
   \<not> list_ex isCreateHook
       (newEvents freshState
          (snd (addHook otomi (found ''10.0.0.1'') (listing tektonHooks) freshState)))"
proof -
  have listed: "listedHooks otomi (listing tektonHooks) st = tektonHooks" for st
    by (simp add: listedHooks_def listing_def)
  have present: "list_all urlPresent tektonHooks"
    by (simp add: tektonHooks_def urlPresent_def)
  have tekton: "list_ex isTektonHook tektonHooks"
    by (simp add: tektonHooks_def isTektonHook_default)
  have again: "fst (hasTektonHook otomi (listing tektonHooks) st) = Inr True" for st
    by (simp add: hasTektonHook_fst listed forEachHook_found present tekton)
  from hook_detection_and_creation [of otomi "listing tektonHooks" freshState "found ''10.0.0.1''"]
    present tekton again
  show ?thesis
    by (simp add: listed)
qed

text \<open>
  C4 as it is stated fails: the second listed hook's url contains the segment, but the
  first has a config without url, and \<open>hasTektonHook\<close> throws instead of returning true.
\<close>

theorem hasTektonHook_counterexample:
  "listedHooks otomi (listing brokenHooks) freshState = brokenHooks \<and>
   list_ex isTektonHook brokenHooks \<and>
   fst (hasTektonHook otomi (listing brokenHooks) freshState) = Inl TypeError"
  by (simp add: hasTektonHook_fst listedHooks_def listing_def brokenHooks_def isTektonHook_default)

text \<open>
  C8, as the code has it: a hook-create call that \<open>addHook\<close> issues carries the type
  Gitea, the http method \<open>post\<close>, the content type \<open>json\<close> and the events \<open>push\<close> and
  nothing else; it tolerates 304 and goes to the values repository of the organization.
  Its url is the cluster IP that the first service lookup resolved, when the service
  carries one, and the default address when that lookup failed or returned a service
  without a spec.
\<close>

theorem addHook_created_option:
  "ApiCall action (RepoCreateHook org repo opt) tol
     \<in> set (newEvents s (snd (addHook cm k8sApi repoApi s))) \<Longrightarrow>
   hook_type opt = Gitea \<and>
   http_method (hook_config opt) = Some ''post'' \<and>
   content_type (hook_config opt) = Some ''json'' \<and>
   (case k8sApi (trace s) ''event-listener'' ''team-admin'' of
      Inl error \<Rightarrow> url (hook_config opt) = Some defaultTektonUrl
    | Inr sv \<Rightarrow>
        (case spec sv of
           None \<Rightarrow> url (hook_config opt) = Some defaultTektonUrl
         | Some sp \<Rightarrow>
             (case clusterIP sp of
                None \<Rightarrow> True
              | Some ip \<Rightarrow> url (hook_config opt) = Some ip))) \<and>
   set (events opt) = {''push''} \<and>
   tol = Some 304 \<and> org = orgName cm \<and> repo = ''values''"
  by (auto simp: addHook_newEvents tektonHookOption_def resolveTektonUrl_def
           split: sum.splits if_splits option.splits)

text \<open>With no hook listed, the hook is created with the resolved address.\<close>

theorem addHook_created_option_witness:
  "ApiCall addingHook
     (RepoCreateHook ''otomi'' ''values'' (tektonHookOption (Some ''10.0.0.1''))) (Some 304)
     \<in> set (newEvents freshState (snd (addHook otomi (found ''10.0.0.1'') acceptAll freshState))) \<and>
   url (hook_config (tektonHookOption (Some ''10.0.0.1''))) = Some ''10.0.0.1'' \<and>
   set (events (tektonHookOption (Some ''10.0.0.1''))) = {''push''}"
proof -
  have h: "ApiCall addingHook
      (RepoCreateHook ''otomi'' ''values'' (tektonHookOption (Some ''10.0.0.1''))) (Some 304)
     \<in> set (newEvents freshState (snd (addHook otomi (found ''10.0.0.1'') acceptAll freshState)))"
    by (simp add: addHook_newEvents found_def hasTektonHook_fst listedHooks_def acceptAll_def
          resolveTektonUrl_def otomi_def)
  from addHook_created_option [OF h] h show ?thesis
    by (simp add: found_def)
qed

text \<open>
  C8 as it is stated fails: when the service that the first lookup returns has a spec
  without a cluster IP, the assignment in the \<open>try\<close> block replaces the default by
  \<open>undefined\<close>, and the hook is created without a url, which is neither the resolved
  nor the default address.
\<close>

theorem addHook_url_absent_counterexample:
  "ApiCall addingHook
     (RepoCreateHook ''otomi'' ''values'' (tektonHookOption None)) (Some 304)
     \<in> set (newEvents freshState (snd (addHook otomi foundWithoutIP acceptAll freshState))) \<and>
   url (hook_config (tektonHookOption None)) = None \<and>
   url (hook_config (tektonHookOption None)) \<noteq> Some defaultTektonUrl"
  by (simp add: addHook_newEvents foundWithoutIP_def hasTektonHook_fst listedHooks_def
        acceptAll_def resolveTektonUrl_def otomi_def tektonHookOption_def)

text \<open>
  C6 does not hold of the code. When the lookup of the listener service fails, the
  \<open>try\<close> block keeps the default address, but the second, unguarded lookup throws:
  \<open>addHook\<close> ends with that error after the two lookups, without listing or creating a
  hook.
\<close>

theorem addHook_lookup_fails:
  "addHook otomi notFound acceptAll freshState =
     (Inl (HttpError 404 ''Not Found''),
      \<lparr>errors = [],
       trace = [ReadNamespacedService ''event-listener'' ''team-admin'',
                ReadNamespacedService ''event-listener'' ''team-admin'']\<rparr>)"
  by (simp add: addHook_def readNamespacedService_def notFound_def freshState_def)

section \<open>The end of a run\<close>

text \<open>
  C5 does not hold of the code. With the Argo feature disabled and the organization
  creation failing with status 500, the error is recorded, but \<open>main\<close> returns before
  the error log is inspected: nothing is printed and the process is not ended with
  status 1. With the feature enabled, the same backend leads to the inspection, which
  prints the error and exits with status 1.
\<close>

theorem main_returns_before_inspection:
  \<open>\<not> hasArgo argoOff \<and>
   fst (main otomi argoOff True (found ''10.0.0.1'') rejectOrg freshState) = ReturnedEarly \<and>
   printedErrors (fst (main otomi argoOff True (found ''10.0.0.1'') rejectOrg freshState)) = None \<and>
   errors (snd (main otomi argoOff True (found ''10.0.0.1'') rejectOrg freshState))
     = [''Creating org "otomi": Internal Server Error''] \<and>
   hasArgo argoOn \<and>
   fst (main otomi argoOn True (found ''10.0.0.1'') rejectOrg freshState)
     = Exit1 [''Creating org "otomi": Internal Server Error'']\<close>
  by (simp add: main_def argoOff_def argoOn_def tenants_def hasArgo_def teamIds_def
        teamConfig_def orDefault_def doApiCall_def rejectOrg_def freshState_def otomi_def
        Let_def teamsOf_def reposOf_def upsertTeam_def tenantTeam_def upsertRepo_def
        upsertRepoOrg_def upsertRepoTeam_def addHook_def readNamespacedService_def found_def
        hasTektonHook_def valuesRepoOption_def argocdRepoOption_def editorTeam_def
        adminTeam_def readOnlyTeam_def)

end
